theory Spec2Isabelle
  imports Complex_Main
begin

section \<open>Python values and the library functions the runner uses\<close>

text \<open>
  The runner \<^verbatim>\<open>run_pipeline.py\<close> passes dictionaries between its collaborators and
  writes them with \<^verbatim>\<open>json.dump\<close>; in batch mode it reads them back with
  \<^verbatim>\<open>json.load\<close>. Such a value is modelled as a JSON tree. A dictionary is an
  association list in insertion order, the order \<^verbatim>\<open>keys()\<close> and
  \<^verbatim>\<open>values()\<close> iterate in.
\<close>

datatype json =
    JNull
  | JBool bool
  | JInt int
  | JFloat real
  | JStr string
  | JList "json list"
  | JDict "(string \<times> json) list"

text \<open>
  Exceptions derived from Python's \<^verbatim>\<open>Exception\<close>, the class the per-file handler
  of the batch loop catches. \<open>Raised name\<close> is any exception a collaborator or the
  file system raises, by class name. Interpreter signals that are not derived from
  \<^verbatim>\<open>Exception\<close> (\<^verbatim>\<open>KeyboardInterrupt\<close>, \<^verbatim>\<open>SystemExit\<close>) are outside the model.
\<close>

datatype exn =
    AttributeError
  | TypeError
  | KeyError string
  | Raised string

text \<open>Truth value of an object, as \<^verbatim>\<open>if x:\<close> tests it.\<close>

fun truthy :: "json \<Rightarrow> bool" where
  "truthy JNull = False"
| "truthy (JBool b) = b"
| "truthy (JInt i) = (i \<noteq> 0)"
| "truthy (JFloat x) = (x \<noteq> 0)"
| "truthy (JStr s) = (s \<noteq> [])"
| "truthy (JList xs) = (xs \<noteq> [])"
| "truthy (JDict kvs) = (kvs \<noteq> [])"

text \<open>\<^verbatim>\<open>len(x)\<close>: defined on strings, lists and dictionaries, a TypeError elsewhere.\<close>

fun py_len :: "json \<Rightarrow> exn + int" where
  "py_len (JStr s) = Inr (int (length s))"
| "py_len (JList xs) = Inr (int (length xs))"
| "py_len (JDict kvs) = Inr (int (length kvs))"
| "py_len _ = Inl TypeError"

text \<open>\<^verbatim>\<open>d.get(key, default)\<close>: only a dictionary has the method.\<close>

fun dict_get :: "json \<Rightarrow> string \<Rightarrow> json \<Rightarrow> exn + json" where
  "dict_get (JDict kvs) k dflt = Inr (case map_of kvs k of None \<Rightarrow> dflt | Some v \<Rightarrow> v)"
| "dict_get _ k dflt = Inl AttributeError"

text \<open>\<^verbatim>\<open>d[key]\<close> with a string key.\<close>

fun subscript :: "json \<Rightarrow> string \<Rightarrow> exn + json" where
  "subscript (JDict kvs) k = (case map_of kvs k of None \<Rightarrow> Inl (KeyError k) | Some v \<Rightarrow> Inr v)"
| "subscript _ k = Inl TypeError"

text \<open>\<^verbatim>\<open>list(d.keys())\<close> and \<^verbatim>\<open>d.values()\<close>.\<close>

fun dict_keys :: "json \<Rightarrow> exn + json" where
  "dict_keys (JDict kvs) = Inr (JList (map (\<lambda>kv. JStr (fst kv)) kvs))"
| "dict_keys _ = Inl AttributeError"

fun dict_values :: "json \<Rightarrow> exn + json list" where
  "dict_values (JDict kvs) = Inr (map snd kvs)"
| "dict_values _ = Inl AttributeError"

text \<open>\<^verbatim>\<open>sum(len(entities) for entities in values)\<close>: the first failing \<^verbatim>\<open>len\<close> raises.\<close>

fun sum_len :: "json list \<Rightarrow> exn + int" where
  "sum_len [] = Inr 0"
| "sum_len (v # vs) =
     (case py_len v of
        Inl e \<Rightarrow> Inl e
      | Inr n \<Rightarrow> (case sum_len vs of Inl e \<Rightarrow> Inl e | Inr m \<Rightarrow> Inr (n + m)))"

text \<open>\<^verbatim>\<open>len(processed_data.get('products', []))\<close>, used by both orchestrators.\<close>

definition product_count :: "json \<Rightarrow> exn + int" where
  "product_count processed_data =
     (case dict_get processed_data ''products'' (JList []) of
        Inl e \<Rightarrow> Inl e
      | Inr products \<Rightarrow> py_len products)"

text \<open>
  \<^verbatim>\<open>os.path.basename\<close>, \<^verbatim>\<open>os.path.splitext\<close> and the two-argument
  \<^verbatim>\<open>os.path.join\<close> of the POSIX flavour, and \<^verbatim>\<open>str.lstrip(chars)\<close>.
\<close>

definition basename :: "string \<Rightarrow> string" where
  "basename p = rev (takeWhile (\<lambda>c. c \<noteq> CHR ''/'') (rev p))"

definition splitext :: "string \<Rightarrow> string \<times> string" where
  "splitext p =
     (let name = basename p;
          dir = take (length p - length name) p;
          upto_dot = dropWhile (\<lambda>c. c \<noteq> CHR ''.'') (rev name)
      in if upto_dot = [] then (p, [])
         else let root = rev (tl upto_dot)
              in if list_all (\<lambda>c. c = CHR ''.'') root then (p, [])
                 else (dir @ root, drop (length root) name))"

definition join :: "string \<Rightarrow> string \<Rightarrow> string" where
  "join a b =
     (if b \<noteq> [] \<and> hd b = CHR ''/'' then b
      else if a = [] \<or> last a = CHR ''/'' then a @ b
      else a @ ''/'' @ b)"

definition lstrip :: "string \<Rightarrow> string \<Rightarrow> string" where
  "lstrip s chars = dropWhile (\<lambda>c. c \<in> set chars) s"

section \<open>The environment: collaborators, file system, clock\<close>

text \<open>
  Everything the runner does to the outside is recorded as an event, in order, together
  with the answer it got. The history of a run is the list of its events, oldest first.
  Writing a file (\<open>Dump\<close>: \<^verbatim>\<open>open(path, 'w')\<close> followed by \<^verbatim>\<open>json.dump\<close>) and
  \<^verbatim>\<open>os.makedirs(..., exist_ok=True)\<close> are taken to succeed; log messages are not
  recorded.
\<close>

datatype event =
    Makedirs string
  | Glob string "string list"
  | Exists string bool
  | Isfile string bool
  | Isdir string bool
  | Load string "exn + json"
  | Dump string json
  | Process_pdf string "exn + json"
  | Process_pdf_batch string string int string bool "exn + json"
  | Extract_entities json "string option" "exn + json"
  | Process_extracted_data json "exn + json"
  | Store_processed_data json "exn + json"

text \<open>
  The five imported collaborators and the library calls that read the outside world are
  parameters of the model. Each answers from the history so far and its arguments, so a
  collaborator may keep state of its own (the database, the files the batch extractor
  wrote) and answer the same question differently later in a run. The clock
  \<^verbatim>\<open>time.time()\<close> is read as a real number; the rounding of the float subtraction
  that gives an elapsed time is not modelled.
\<close>

record env =
  process_pdf :: "event list \<Rightarrow> string \<Rightarrow> exn + json"
  process_pdf_batch :: "event list \<Rightarrow> string \<Rightarrow> string \<Rightarrow> int \<Rightarrow> string \<Rightarrow> bool \<Rightarrow> exn + json"
  extract_entities :: "event list \<Rightarrow> json \<Rightarrow> string option \<Rightarrow> exn + json"
  process_extracted_data :: "event list \<Rightarrow> json \<Rightarrow> exn + json"
  store_processed_data :: "event list \<Rightarrow> json \<Rightarrow> exn + json"
  glob_glob :: "event list \<Rightarrow> string \<Rightarrow> string list"
  path_exists :: "event list \<Rightarrow> string \<Rightarrow> bool"
  path_isfile :: "event list \<Rightarrow> string \<Rightarrow> bool"
  path_isdir :: "event list \<Rightarrow> string \<Rightarrow> bool"
  json_load :: "event list \<Rightarrow> string \<Rightarrow> exn + json"
  time_time :: "event list \<Rightarrow> real"

section \<open>Single-document orchestrator\<close>

text \<open>The dictionary built by the \<^verbatim>\<open>return\<close> statement of \<^verbatim>\<open>process_single_pdf\<close>.\<close>

definition combined_results ::
  "string \<Rightarrow> json \<Rightarrow> real \<Rightarrow> json \<Rightarrow> real \<Rightarrow> json \<Rightarrow> real \<Rightarrow> json \<Rightarrow> bool \<Rightarrow> exn + json" where
  "combined_results filename pdf_info pdf_time entities_data entity_time
       processed_data processing_time db_result store_in_db =
     (case dict_get pdf_info ''page_count'' (JInt 0) of Inl e \<Rightarrow> Inl e | Inr page_count \<Rightarrow>
     (case dict_get pdf_info ''requires_ocr'' (JBool False) of Inl e \<Rightarrow> Inl e | Inr requires_ocr \<Rightarrow>
     (case dict_get entities_data ''entities'' (JDict []) of Inl e \<Rightarrow> Inl e | Inr ents \<Rightarrow>
     (case dict_keys ents of Inl e \<Rightarrow> Inl e | Inr entity_types \<Rightarrow>
     (case dict_get entities_data ''entities'' (JDict []) of Inl e \<Rightarrow> Inl e | Inr ents' \<Rightarrow>
     (case dict_values ents' of Inl e \<Rightarrow> Inl e | Inr vals \<Rightarrow>
     (case sum_len vals of Inl e \<Rightarrow> Inl e | Inr entity_count \<Rightarrow>
     (case product_count processed_data of Inl e \<Rightarrow> Inl e | Inr n \<Rightarrow>
      Inr (JDict
        [(''pdf_info'', JDict
            [(''filename'', JStr filename),
             (''page_count'', page_count),
             (''requires_ocr'', requires_ocr),
             (''processing_time'', JFloat pdf_time)]),
         (''entity_extraction'', JDict
            [(''entity_types'', entity_types),
             (''entity_count'', JInt entity_count),
             (''processing_time'', JFloat entity_time)]),
         (''data_processing'', JDict
            [(''product_count'', JInt n),
             (''processing_time'', JFloat processing_time)]),
         (''database_storage'',
            if store_in_db then db_result else JDict [(''skipped'', JBool True)])])))))))))"

definition process_single_pdf ::
  "env \<Rightarrow> string \<Rightarrow> string \<Rightarrow> string option \<Rightarrow> bool \<Rightarrow> bool \<Rightarrow> event list
     \<Rightarrow> (exn + json) \<times> event list" where
  "process_single_pdf env pdf_path output_dir model_path save_intermediates store_in_db h0 =
     (let h1 = h0 @ [Makedirs output_dir];
          filename = basename pdf_path;
          base_name = fst (splitext filename);
          start1 = time_time env h1;
          r1 = process_pdf env h1 pdf_path;
          h2 = h1 @ [Process_pdf pdf_path r1]
      in (case r1 of Inl e \<Rightarrow> (Inl e, h2) | Inr pdf_info \<Rightarrow>
     (let pdf_time = time_time env h2 - start1;
          h3 = (if save_intermediates
                then h2 @ [Dump (join output_dir (base_name @ ''_text.json'')) pdf_info]
                else h2);
          start2 = time_time env h3;
          r2 = extract_entities env h3 pdf_info model_path;
          h4 = h3 @ [Extract_entities pdf_info model_path r2]
      in (case r2 of Inl e \<Rightarrow> (Inl e, h4) | Inr entities_data \<Rightarrow>
     (let entity_time = time_time env h4 - start2;
          h5 = (if save_intermediates
                then h4 @ [Dump (join output_dir (base_name @ ''_entities.json'')) entities_data]
                else h4);
          start3 = time_time env h5;
          r3 = process_extracted_data env h5 entities_data;
          h6 = h5 @ [Process_extracted_data entities_data r3]
      in (case r3 of Inl e \<Rightarrow> (Inl e, h6) | Inr processed_data \<Rightarrow>
     (let processing_time = time_time env h6 - start3;
          h7 = h6 @ [Dump (join output_dir (base_name @ ''_processed.json'')) processed_data]
      in if store_in_db then
           (let r4 = store_processed_data env h7 processed_data;
                h8 = h7 @ [Store_processed_data processed_data r4]
            in (case r4 of Inl e \<Rightarrow> (Inl e, h8) | Inr db_result \<Rightarrow>
           (let h9 = h8 @ [Dump (join output_dir (base_name @ ''_db_result.json'')) db_result]
            in (case dict_get db_result ''success'' (JBool False) of
                  Inl e \<Rightarrow> (Inl e, h9)
                | Inr ok \<Rightarrow>
                    (combined_results filename pdf_info pdf_time entities_data entity_time
                       processed_data processing_time db_result store_in_db, h9)))))
         else
           (combined_results filename pdf_info pdf_time entities_data entity_time
              processed_data processing_time (JDict []) store_in_db, h7))))))))"

section \<open>Batch orchestrator\<close>

record counters =
  successful :: int
  failed :: int
  products_found :: int

text \<open>
  The body of the \<^verbatim>\<open>try\<close> block for one file. It returns the counters as the
  statements of the body leave them, or the exception that left the block. No counter is
  assigned before a statement that can raise, so the handler sees the counters of the
  start of the iteration. The \<^verbatim>\<open>db_result.get('errors', [])\<close> of the error message
  is evaluated after \<^verbatim>\<open>db_result.get('success', False)\<close> has succeeded and cannot
  raise.
\<close>

definition file_body ::
  "env \<Rightarrow> string \<Rightarrow> string option \<Rightarrow> bool \<Rightarrow> bool \<Rightarrow> string \<Rightarrow> counters \<Rightarrow> event list
     \<Rightarrow> (exn + counters) \<times> event list" where
  "file_body env output_dir model_path save_intermediates store_in_db pdf_file c h0 =
     (let filename = basename pdf_file;
          base_name = fst (splitext filename);
          json_path = join output_dir (base_name @ ''.json'');
          found = path_exists env h0 json_path;
          h1 = h0 @ [Exists json_path found]
      in if \<not> found then (Inr (c\<lparr>failed := failed c + 1\<rparr>), h1)
      else
     (let r1 = json_load env h1 json_path;
          h2 = h1 @ [Load json_path r1]
      in (case r1 of Inl e \<Rightarrow> (Inl e, h2) | Inr pdf_info \<Rightarrow>
     (let r2 = extract_entities env h2 pdf_info model_path;
          h3 = h2 @ [Extract_entities pdf_info model_path r2]
      in (case r2 of Inl e \<Rightarrow> (Inl e, h3) | Inr entities_data \<Rightarrow>
     (let h4 = (if save_intermediates
                then h3 @ [Dump (join output_dir (base_name @ ''_entities.json'')) entities_data]
                else h3);
          r3 = process_extracted_data env h4 entities_data;
          h5 = h4 @ [Process_extracted_data entities_data r3]
      in (case r3 of Inl e \<Rightarrow> (Inl e, h5) | Inr processed_data \<Rightarrow>
     (let h6 = h5 @ [Dump (join output_dir (base_name @ ''_processed.json'')) processed_data]
      in if store_in_db then
           (let r4 = store_processed_data env h6 processed_data;
                h7 = h6 @ [Store_processed_data processed_data r4]
            in (case r4 of Inl e \<Rightarrow> (Inl e, h7) | Inr db_result \<Rightarrow>
           (let h8 = h7 @ [Dump (join output_dir (base_name @ ''_db_result.json'')) db_result]
            in (case dict_get db_result ''success'' (JBool False) of
                  Inl e \<Rightarrow> (Inl e, h8)
                | Inr ok \<Rightarrow>
                    if truthy ok then
                      (case product_count processed_data of
                         Inl e \<Rightarrow> (Inl e, h8)
                       | Inr n \<Rightarrow>
                           (Inr (c\<lparr>products_found := products_found c + n,
                                   successful := successful c + 1\<rparr>), h8))
                    else (Inr (c\<lparr>failed := failed c + 1\<rparr>), h8)))))
         else
           (case product_count processed_data of
              Inl e \<Rightarrow> (Inl e, h6)
            | Inr n \<Rightarrow>
                (Inr (c\<lparr>products_found := products_found c + n,
                        successful := successful c + 1\<rparr>), h6))))))))))"

text \<open>One iteration: the \<^verbatim>\<open>try\<close> block and its \<^verbatim>\<open>except Exception\<close> handler.\<close>

definition process_file ::
  "env \<Rightarrow> string \<Rightarrow> string option \<Rightarrow> bool \<Rightarrow> bool \<Rightarrow> string \<Rightarrow> counters \<Rightarrow> event list
     \<Rightarrow> counters \<times> event list" where
  "process_file env output_dir model_path save_intermediates store_in_db pdf_file c h0 =
     (case file_body env output_dir model_path save_intermediates store_in_db pdf_file c h0 of
        (Inr c', h) \<Rightarrow> (c', h)
      | (Inl e, h) \<Rightarrow> (c\<lparr>failed := failed c + 1\<rparr>, h))"

text \<open>The \<^verbatim>\<open>for pdf_file in pdf_files\<close> loop.\<close>

fun process_files ::
  "env \<Rightarrow> string \<Rightarrow> string option \<Rightarrow> bool \<Rightarrow> bool \<Rightarrow> string list \<Rightarrow> counters \<Rightarrow> event list
     \<Rightarrow> counters \<times> event list" where
  "process_files env output_dir model_path save_intermediates store_in_db [] c h = (c, h)"
| "process_files env output_dir model_path save_intermediates store_in_db (pdf_file # rest) c h =
     (case process_file env output_dir model_path save_intermediates store_in_db pdf_file c h of
        (c', h') \<Rightarrow>
          process_files env output_dir model_path save_intermediates store_in_db rest c' h')"

definition process_directory ::
  "env \<Rightarrow> string \<Rightarrow> string \<Rightarrow> string option \<Rightarrow> string \<Rightarrow> bool \<Rightarrow> bool \<Rightarrow> int \<Rightarrow> event list
     \<Rightarrow> (exn + json) \<times> event list" where
  "process_directory env input_dir output_dir model_path file_pattern save_intermediates
       store_in_db max_workers h0 =
     (let h1 = h0 @ [Makedirs output_dir];
          pdf_files = glob_glob env h1 (join input_dir file_pattern);
          h2 = h1 @ [Glob (join input_dir file_pattern) pdf_files]
      in if pdf_files = [] then
           (Inr (JDict [(''error'', JStr ''No PDF files found''), (''file_count'', JInt 0)]), h2)
         else
           let r = process_pdf_batch env h2 input_dir output_dir max_workers
                     (lstrip file_pattern ''*'') True;
               h3 = h2 @ [Process_pdf_batch input_dir output_dir max_workers
                            (lstrip file_pattern ''*'') True r]
           in (case r of Inl e \<Rightarrow> (Inl e, h3) | Inr batch_results \<Rightarrow>
              (case process_files env output_dir model_path save_intermediates store_in_db
                      pdf_files \<lparr>successful = 0, failed = 0, products_found = 0\<rparr> h3 of
                 (c, h4) \<Rightarrow>
                   (Inr (JDict
                      [(''file_count'', JInt (int (length pdf_files))),
                       (''successful'', JInt (successful c)),
                       (''failed'', JInt (failed c)),
                       (''products_found'', JInt (products_found c))]), h4))))"

section \<open>Entry point\<close>

text \<open>The namespace \<^verbatim>\<open>parser.parse_args()\<close> returns.\<close>

record args =
  arg_input :: string
  arg_output_dir :: string
  arg_model :: "string option"
  arg_save_intermediates :: bool
  arg_no_db :: bool
  arg_pattern :: string
  arg_workers :: int

text \<open>The summary lines \<^verbatim>\<open>main\<close> logs after a single-file run: the subscripts they evaluate.\<close>

definition single_report :: "json \<Rightarrow> bool \<Rightarrow> exn + unit" where
  "single_report result no_db =
     (case subscript result ''pdf_info'' of Inl e \<Rightarrow> Inl e | Inr info \<Rightarrow>
     (case subscript info ''filename'' of Inl e \<Rightarrow> Inl e | Inr _ \<Rightarrow>
     (case subscript info ''page_count'' of Inl e \<Rightarrow> Inl e | Inr _ \<Rightarrow>
     (case subscript info ''requires_ocr'' of Inl e \<Rightarrow> Inl e | Inr _ \<Rightarrow>
     (case subscript result ''entity_extraction'' of Inl e \<Rightarrow> Inl e | Inr ee \<Rightarrow>
     (case subscript ee ''entity_count'' of Inl e \<Rightarrow> Inl e | Inr _ \<Rightarrow>
     (case subscript result ''data_processing'' of Inl e \<Rightarrow> Inl e | Inr dp \<Rightarrow>
     (case subscript dp ''product_count'' of Inl e \<Rightarrow> Inl e | Inr _ \<Rightarrow>
      if no_db then Inr ()
      else
       (case subscript result ''database_storage'' of Inl e \<Rightarrow> Inl e | Inr st \<Rightarrow>
       (case dict_get st ''success'' (JBool False) of
          Inl e \<Rightarrow> Inl e
        | Inr ok \<Rightarrow> Inr ()))))))))))"

text \<open>The summary lines \<^verbatim>\<open>main\<close> logs after a batch run.\<close>

definition batch_report :: "json \<Rightarrow> exn + unit" where
  "batch_report result =
     (case subscript result ''file_count'' of Inl e \<Rightarrow> Inl e | Inr _ \<Rightarrow>
     (case subscript result ''successful'' of Inl e \<Rightarrow> Inl e | Inr _ \<Rightarrow>
     (case subscript result ''failed'' of Inl e \<Rightarrow> Inl e | Inr _ \<Rightarrow>
     (case subscript result ''products_found'' of Inl e \<Rightarrow> Inl e | Inr _ \<Rightarrow> Inr ()))))"

text \<open>
  \<^verbatim>\<open>main\<close> after argument parsing: the value it returns, or the exception that
  leaves it.
\<close>

definition main :: "env \<Rightarrow> args \<Rightarrow> event list \<Rightarrow> (exn + int) \<times> event list" where
  "main env a h0 =
     (let isf = path_isfile env h0 (arg_input a);
          h1 = h0 @ [Isfile (arg_input a) isf]
      in if isf then
           (case process_single_pdf env (arg_input a) (arg_output_dir a) (arg_model a)
                   (arg_save_intermediates a) (\<not> arg_no_db a) h1 of
              (Inl e, h) \<Rightarrow> (Inl e, h)
            | (Inr result, h) \<Rightarrow>
                (case single_report result (arg_no_db a) of
                   Inl e \<Rightarrow> (Inl e, h)
                 | Inr _ \<Rightarrow> (Inr 0, h)))
         else
           let isd = path_isdir env h1 (arg_input a);
               h2 = h1 @ [Isdir (arg_input a) isd]
           in if isd then
                (case process_directory env (arg_input a) (arg_output_dir a) (arg_model a)
                        (arg_pattern a) (arg_save_intermediates a) (\<not> arg_no_db a)
                        (arg_workers a) h2 of
                   (Inl e, h) \<Rightarrow> (Inl e, h)
                 | (Inr result, h) \<Rightarrow>
                     (case batch_report result of
                        Inl e \<Rightarrow> (Inl e, h)
                      | Inr _ \<Rightarrow> (Inr 0, h)))
              else (Inr 1, h2))"

text \<open>
  \<^verbatim>\<open>exit(main())\<close>: the status of the process is the value \<^verbatim>\<open>main\<close> returns, and
  1 when an exception leaves \<^verbatim>\<open>main\<close> (the interpreter prints the traceback).
\<close>

definition exit_status :: "exn + int \<Rightarrow> int" where
  "exit_status r = (case r of Inl e \<Rightarrow> 1 | Inr code \<Rightarrow> code)"

section \<open>Observations on a history\<close>

text \<open>An extraction artifact that was looked for and not found.\<close>

fun is_missing :: "event \<Rightarrow> bool" where
  "is_missing (Exists p found) = (\<not> found)"
| "is_missing _ = False"


text \<open>The path of an artifact of a document: \<^verbatim>\<open><output_dir>/<base><suffix>\<close>.\<close>

definition artifact :: "string \<Rightarrow> string \<Rightarrow> string \<Rightarrow> string" where
  "artifact output_dir pdf_path suffix =
     join output_dir (fst (splitext (basename pdf_path)) @ suffix)"

text \<open>The paths written during a history, in order.\<close>

fun written :: "event list \<Rightarrow> string list" where
  "written [] = []"
| "written (Dump p v # es) = p # written es"
| "written (e # es) = written es"

text \<open>Calls of the storage sink, and the collaborator calls that returned a value.\<close>

fun is_store_call :: "event \<Rightarrow> bool" where
  "is_store_call (Store_processed_data d r) = True"
| "is_store_call _ = False"





text \<open>The length \<^verbatim>\<open>len\<close> gives where it is defined.\<close>

fun seq_len :: "json \<Rightarrow> int" where
  "seq_len (JList xs) = int (length xs)"
| "seq_len (JStr s) = int (length s)"
| "seq_len (JDict kvs) = int (length kvs)"
| "seq_len _ = 0"

section \<open>An example environment\<close>

text \<open>
  A directory \<^verbatim>\<open>in\<close> with three documents, of which the batch extractor produced the
  artifacts of \<^verbatim>\<open>a\<close> and \<^verbatim>\<open>c\<close> only, a directory \<^verbatim>\<open>empty\<close> without
  documents, and collaborators that always answer the same.
\<close>

definition example_env :: env where
  "example_env = \<lparr>
     process_pdf = (\<lambda>h p. Inr (JDict [(''page_count'', JInt 2), (''requires_ocr'', JBool False)])),
     process_pdf_batch = (\<lambda>h i out w pat s. Inr (JList [])),
     extract_entities = (\<lambda>h info m. Inr (JDict [(''entities'',
        JDict [(''ORG'', JList [JStr ''Acme'']), (''PRICE'', JList [JStr ''19.99''])])])),
     process_extracted_data = (\<lambda>h e. Inr (JDict [(''products'', JList [JStr ''Acme 19.99''])])),
     store_processed_data = (\<lambda>h d. Inr (JDict [(''success'', JBool True),
        (''document_id'', JInt 1), (''product_ids'', JList [JInt 1])])),
     glob_glob = (\<lambda>h p. if p = ''in/*.pdf'' then [''in/a.pdf'', ''in/b.pdf'', ''in/c.pdf''] else []),
     path_exists = (\<lambda>h p. p \<noteq> ''out/b.json''),
     path_isfile = (\<lambda>h p. p = ''in/a.pdf''),
     path_isdir = (\<lambda>h p. p = ''in'' \<or> p = ''empty''),
     json_load = (\<lambda>h p. Inr (JDict [(''page_count'', JInt 2), (''requires_ocr'', JBool False)])),
     time_time = (\<lambda>h. real (length h)) \<rparr>"


text \<open>The example with a collaborator that raises: the extractor (1), the recognizer (2) or the
  normalizer (3).\<close>

definition failing_env :: "nat \<Rightarrow> env" where
  "failing_env stage = example_env\<lparr>
     process_pdf := (\<lambda>h p. if stage = 1 then Inl (Raised ''ExtractionError'')
                           else process_pdf example_env h p),
     extract_entities := (\<lambda>h i m. if stage = 2 then Inl (Raised ''RecognitionError'')
                                 else extract_entities example_env h i m),
     process_extracted_data := (\<lambda>h d. if stage = 3 then Inl (Raised ''ValueError'')
                                      else process_extracted_data example_env h d)\<rparr>"

text \<open>The command line \<^verbatim>\<open>--input empty --output-dir out\<close>.\<close>

definition empty_dir_args :: args where
  "empty_dir_args = \<lparr>arg_input = ''empty'', arg_output_dir = ''out'', arg_model = None,
     arg_save_intermediates = False, arg_no_db = False, arg_pattern = ''*.pdf'',
     arg_workers = 4\<rparr>"

section \<open>Evaluation of concrete runs\<close>


lemmas single_defs = process_single_pdf_def combined_results_def basename_def splitext_def
  join_def product_count_def Let_def artifact_def

section \<open>Batch accounting\<close>

lemma process_file_counts:
  assumes "process_file env out m si db f c h = (c', h')"
  shows "successful c' + failed c' = successful c + failed c + 1"
    and "\<exists>d. h' = h @ d \<and> int (length (filter is_missing d)) \<le> failed c' - failed c"
  using assms
  by (auto simp: process_file_def file_body_def Let_def split: if_splits sum.splits prod.splits)

lemma process_files_counts:
  "process_files env out m si db fs c h = (c', h') \<Longrightarrow>
     successful c' + failed c' = successful c + failed c + int (length fs) \<and>
     (\<exists>d. h' = h @ d \<and> int (length (filter is_missing d)) \<le> failed c' - failed c)"
proof (induction fs arbitrary: c h)
  case Nil
  then show ?case by simp
next
  case (Cons f fs)
  obtain c1 h1 where s: "process_file env out m si db f c h = (c1, h1)"
    by (cases "process_file env out m si db f c h")
  with Cons.prems have r: "process_files env out m si db fs c1 h1 = (c', h')" by simp
  from Cons.IH[OF r] process_file_counts[OF s] show ?case
    by auto
qed

text \<open>
  Claim C1. When a batch run over at least one matching file returns, it returns the
  four-field summary, \<open>file_count\<close> is the number of files the enumeration matched, and
  \<open>successful + failed = file_count\<close>; every file whose extraction artifact was not
  found during the run is among the failed ones.
\<close>

theorem batch_counts_add_up:
  assumes ret: "fst (process_directory env input_dir output_dir model_path file_pattern
                  save_intermediates store_in_db max_workers h0) = Inr summary"
      and files: "glob_glob env (h0 @ [Makedirs output_dir]) (join input_dir file_pattern) = pdf_files"
      and nonempty: "pdf_files \<noteq> []"
  shows "\<exists>s f p.
           summary = JDict [(''file_count'', JInt (int (length pdf_files))),
                            (''successful'', JInt s), (''failed'', JInt f),
                            (''products_found'', JInt p)] \<and>
           s + f = int (length pdf_files) \<and>
           int (length (filter is_missing (drop (length h0)
                  (snd (process_directory env input_dir output_dir model_path file_pattern
                          save_intermediates store_in_db max_workers h0))))) \<le> f"
proof -
  let ?h2 = "h0 @ [Makedirs output_dir] @ [Glob (join input_dir file_pattern) pdf_files]"
  let ?pat = "lstrip file_pattern ''*''"
  let ?r = "process_pdf_batch env ?h2 input_dir output_dir max_workers ?pat True"
  let ?h3 = "?h2 @ [Process_pdf_batch input_dir output_dir max_workers ?pat True ?r]"
  let ?c0 = "\<lparr>successful = 0, failed = 0, products_found = 0\<rparr>"
  obtain c h4 where loop: "process_files env output_dir model_path save_intermediates store_in_db
                             pdf_files ?c0 ?h3 = (c, h4)"
    by (cases "process_files env output_dir model_path save_intermediates store_in_db
                 pdf_files ?c0 ?h3")
  from ret files nonempty obtain b where b: "?r = Inr b"
    by (cases ?r) (auto simp: process_directory_def Let_def)
  have run: "process_directory env input_dir output_dir model_path file_pattern
               save_intermediates store_in_db max_workers h0 =
             (Inr (JDict [(''file_count'', JInt (int (length pdf_files))),
                          (''successful'', JInt (successful c)), (''failed'', JInt (failed c)),
                          (''products_found'', JInt (products_found c))]), h4)"
    using files nonempty b loop by (simp add: process_directory_def Let_def)
  from process_files_counts[OF loop] obtain d where
    sum: "successful c + failed c = int (length pdf_files)" and
    d: "h4 = ?h3 @ d" "int (length (filter is_missing d)) \<le> failed c"
    by auto
  have "drop (length h0) h4 = Makedirs output_dir # Glob (join input_dir file_pattern) pdf_files #
          Process_pdf_batch input_dir output_dir max_workers ?pat True ?r # d"
    using d(1) by simp
  then have "int (length (filter is_missing (drop (length h0) h4))) \<le> failed c"
    using d(2) by simp
  with run ret sum show ?thesis
    by (intro exI[of _ "successful c"] exI[of _ "failed c"] exI[of _ "products_found c"]) auto
qed

theorem batch_counts_add_up_witness:
  "fst (process_directory example_env ''in'' ''out'' None ''*.pdf'' False True 4 []) =
     Inr (JDict [(''file_count'', JInt 3), (''successful'', JInt 2), (''failed'', JInt 1),
                 (''products_found'', JInt 2)]) \<and>
   glob_glob example_env [Makedirs ''out''] (join ''in'' ''*.pdf'') =
     [''in/a.pdf'', ''in/b.pdf'', ''in/c.pdf''] \<and>
   (2::int) + 1 = int (length [''in/a.pdf'', ''in/b.pdf'', ''in/c.pdf''])"
proof -
  have ret: "fst (process_directory example_env ''in'' ''out'' None ''*.pdf'' False True 4 []) =
     Inr (JDict [(''file_count'', JInt 3), (''successful'', JInt 2), (''failed'', JInt 1),
                 (''products_found'', JInt 2)])"
    by (simp add: process_directory_def example_env_def join_def lstrip_def process_file_def
          file_body_def basename_def splitext_def product_count_def Let_def)
  have files: "glob_glob example_env ([] @ [Makedirs ''out'']) (join ''in'' ''*.pdf'') =
     [''in/a.pdf'', ''in/b.pdf'', ''in/c.pdf'']"
    by (simp add: example_env_def join_def)
  from batch_counts_add_up[OF ret files] ret files show ?thesis
    by simp
qed

section \<open>Partial failure in a batch\<close>












section \<open>Classification of a file\<close>



section \<open>Runs of the single-document orchestrator\<close>

lemma written_append [simp]: "written (xs @ ys) = written xs @ written ys"
  by (induction xs rule: written.induct) simp_all

lemma single_returns:
  assumes run: "process_single_pdf env p out m si db h0 = (Inr summary, h)"
  shows "\<exists>info ents pd dbr t1 t2 t3.
       h = h0 @ [Makedirs out, Process_pdf p (Inr info)] @
           (if si then [Dump (artifact out p ''_text.json'') info] else []) @
           [Extract_entities info m (Inr ents)] @
           (if si then [Dump (artifact out p ''_entities.json'') ents] else []) @
           [Process_extracted_data ents (Inr pd), Dump (artifact out p ''_processed.json'') pd] @
           (if db then [Store_processed_data pd (Inr dbr),
                        Dump (artifact out p ''_db_result.json'') dbr] else []) \<and>
       combined_results (basename p) info t1 ents t2 pd t3 dbr db = Inr summary \<and>
       (db \<longrightarrow> (\<exists>ok. dict_get dbr ''success'' (JBool False) = Inr ok))"
  using run
  by (auto simp: process_single_pdf_def Let_def artifact_def split: if_splits sum.splits)
     blast+


lemma sum_len_total:
  "sum_len vs = Inr n \<Longrightarrow> n = sum_list (map seq_len vs)"
proof (induction vs arbitrary: n)
  case Nil
  then show ?case by simp
next
  case (Cons v vs)
  then show ?case
    by (cases v) (auto split: sum.splits)
qed


lemma combined_results_entities:
  assumes "combined_results filename info t1 ents t2 pd t3 dbr db = Inr summary"
      and "dict_get ents ''entities'' (JDict []) = Inr (JDict kvs)"
  shows "subscript summary ''entity_extraction'' =
           Inr (JDict [(''entity_types'', JList (map (\<lambda>kv. JStr (fst kv)) kvs)),
                       (''entity_count'', JInt (sum_list (map (\<lambda>kv. seq_len (snd kv)) kvs))),
                       (''processing_time'', JFloat t2)])"
  using assms
  by (auto simp: combined_results_def comp_def split: sum.splits dest!: sum_len_total)

section \<open>Failure of a stage in single-document mode\<close>

text \<open>
  Claim C4. In single-document mode an exception raised by the extractor, the recognizer or
  the normalizer is what \<open>process_single_pdf\<close> ends with: no summary is returned, the
  storage sink is not called, and the only artifacts written are those of the stages before
  the failing one (none, the text, or the text and the entities, each only with
  intermediate persistence).
\<close>

theorem single_document_errors_propagate:
  assumes run: "process_single_pdf env pdf_path output_dir model_path save_intermediates
                  store_in_db h0 = (r, h)"
      and new: "new = drop (length h0) h"
  shows "(Process_pdf p (Inl e) \<in> set new \<longrightarrow>
            r = Inl e \<and> written new = [] \<and> \<not> list_ex is_store_call new) \<and>
         (Extract_entities i m (Inl e) \<in> set new \<longrightarrow>
            r = Inl e \<and> \<not> list_ex is_store_call new \<and>
            written new =
              (if save_intermediates then [artifact output_dir pdf_path ''_text.json''] else [])) \<and>
         (Process_extracted_data d (Inl e) \<in> set new \<longrightarrow>
            r = Inl e \<and> \<not> list_ex is_store_call new \<and>
            written new =
              (if save_intermediates
               then [artifact output_dir pdf_path ''_text.json'',
                     artifact output_dir pdf_path ''_entities.json'']
               else []))"
  using run unfolding new
  by (auto simp: process_single_pdf_def artifact_def Let_def split: if_splits sum.splits)

theorem single_document_errors_propagate_witness:
  "fst (process_single_pdf (failing_env 1) ''in/a.pdf'' ''out'' None True True []) =
     Inl (Raised ''ExtractionError'') \<and>
   written (snd (process_single_pdf (failing_env 1) ''in/a.pdf'' ''out'' None True True [])) = [] \<and>
   fst (process_single_pdf (failing_env 2) ''in/a.pdf'' ''out'' None True True []) =
     Inl (Raised ''RecognitionError'') \<and>
   written (snd (process_single_pdf (failing_env 2) ''in/a.pdf'' ''out'' None True True [])) =
     [''out/a_text.json''] \<and>
   fst (process_single_pdf (failing_env 3) ''in/a.pdf'' ''out'' None True True []) =
     Inl (Raised ''ValueError'') \<and>
   written (snd (process_single_pdf (failing_env 3) ''in/a.pdf'' ''out'' None True True [])) =
     [''out/a_text.json'', ''out/a_entities.json'']"
proof -
  let ?info = "JDict [(''page_count'', JInt 2), (''requires_ocr'', JBool False)]"
  let ?ents = "JDict [(''entities'',
        JDict [(''ORG'', JList [JStr ''Acme'']), (''PRICE'', JList [JStr ''19.99''])])]"
  let ?X = "\<lambda>k. process_single_pdf (failing_env k) ''in/a.pdf'' ''out'' None True True []"
  have m1: "Process_pdf ''in/a.pdf'' (Inl (Raised ''ExtractionError''))
              \<in> set (drop (length []) (snd (?X 1)))"
    by (simp add: failing_env_def example_env_def single_defs)
  have m2: "Extract_entities ?info None (Inl (Raised ''RecognitionError''))
              \<in> set (drop (length []) (snd (?X 2)))"
    by (simp add: failing_env_def example_env_def single_defs)
  have m3: "Process_extracted_data ?ents (Inl (Raised ''ValueError''))
              \<in> set (drop (length []) (snd (?X 3)))"
    by (simp add: failing_env_def example_env_def single_defs)
  have a: "artifact ''out'' ''in/a.pdf'' ''_text.json'' = ''out/a_text.json''"
          "artifact ''out'' ''in/a.pdf'' ''_entities.json'' = ''out/a_entities.json''"
    by (simp_all add: single_defs)
  note t1 = single_document_errors_propagate[OF prod.collapse[symmetric] refl,
              THEN conjunct1, THEN mp, OF m1]
  note t2 = single_document_errors_propagate[OF prod.collapse[symmetric] refl,
              THEN conjunct2, THEN conjunct1, THEN mp, OF m2]
  note t3 = single_document_errors_propagate[OF prod.collapse[symmetric] refl,
              THEN conjunct2, THEN conjunct2, THEN mp, OF m3]
  from t1 t2 t3 show ?thesis
    by (simp add: a)
qed

section \<open>The storage section of the summary\<close>



section \<open>Artifacts written for a document\<close>





section \<open>The entity section of the summary\<close>

text \<open>
  Claim C9. When the recognizer returned a result whose \<open>entities\<close> entry is the dictionary
  \<open>kvs\<close>, the entity section of the returned summary has the keys of \<open>kvs\<close>, in order, as
  \<open>entity_types\<close> and the sum of the lengths of its values as \<open>entity_count\<close>.
\<close>

theorem entity_section_of_summary:
  assumes run: "process_single_pdf env pdf_path output_dir model_path save_intermediates
                  store_in_db h0 = (Inr summary, h)"
      and recognized: "Extract_entities pdf_info model (Inr entities_data)
                         \<in> set (drop (length h0) h)"
      and entities: "dict_get entities_data ''entities'' (JDict []) = Inr (JDict kvs)"
  shows "\<exists>section. subscript summary ''entity_extraction'' = Inr section \<and>
           subscript section ''entity_types'' = Inr (JList (map (\<lambda>kv. JStr (fst kv)) kvs)) \<and>
           subscript section ''entity_count'' =
             Inr (JInt (sum_list (map (\<lambda>kv. seq_len (snd kv)) kvs)))"
proof -
  from single_returns[OF run] obtain info ents pd dbr t1 t2 t3 where
    h: "h = h0 @ [Makedirs output_dir, Process_pdf pdf_path (Inr info)] @
           (if save_intermediates then [Dump (artifact output_dir pdf_path ''_text.json'') info] else []) @
           [Extract_entities info model_path (Inr ents)] @
           (if save_intermediates then [Dump (artifact output_dir pdf_path ''_entities.json'') ents] else []) @
           [Process_extracted_data ents (Inr pd), Dump (artifact output_dir pdf_path ''_processed.json'') pd] @
           (if store_in_db then [Store_processed_data pd (Inr dbr),
                        Dump (artifact output_dir pdf_path ''_db_result.json'') dbr] else [])"
    and cr: "combined_results (basename pdf_path) info t1 ents t2 pd t3 dbr store_in_db = Inr summary"
    by blast
  from recognized h have "ents = entities_data"
    by (simp split: if_splits)
  with combined_results_entities[OF cr] entities show ?thesis
    by simp
qed

theorem entity_section_of_summary_witness:
  "(case fst (process_single_pdf example_env ''in/a.pdf'' ''out'' None False True []) of
      Inl e \<Rightarrow> False
    | Inr summary \<Rightarrow>
        (case subscript summary ''entity_extraction'' of
           Inl e \<Rightarrow> False
         | Inr section \<Rightarrow>
             subscript section ''entity_types'' = Inr (JList [JStr ''ORG'', JStr ''PRICE'']) \<and>
             subscript section ''entity_count'' = Inr (JInt 2)))"
proof -
  let ?X = "process_single_pdf example_env ''in/a.pdf'' ''out'' None False True []"
  let ?info = "JDict [(''page_count'', JInt 2), (''requires_ocr'', JBool False)]"
  let ?kvs = "[(''ORG'', JList [JStr ''Acme'']), (''PRICE'', JList [JStr ''19.99''])]"
  obtain s where s: "fst ?X = Inr s"
    by (simp add: example_env_def single_defs)
  then have run: "?X = (Inr s, snd ?X)"
    by (simp add: prod_eq_iff)
  have rec: "Extract_entities ?info None (Inr (JDict [(''entities'', JDict ?kvs)]))
               \<in> set (drop (length []) (snd ?X))"
    by (simp add: example_env_def single_defs)
  have ents: "dict_get (JDict [(''entities'', JDict ?kvs)]) ''entities'' (JDict []) =
                Inr (JDict ?kvs)"
    by simp
  from entity_section_of_summary[OF run rec ents] s show ?thesis
    by auto
qed

section \<open>A directory without matching files\<close>

text \<open>
  Claim C8. When the enumeration matches no file, \<open>process_directory\<close> returns exactly
  \<open>{'error': 'No PDF files found', 'file_count': 0}\<close>, whose error text is not empty, and
  its only events are the creation of the output directory and the enumeration: the batch
  extractor and the later stages are not called and nothing is written.
\<close>

theorem no_matching_files:
  assumes "glob_glob env (h0 @ [Makedirs output_dir]) (join input_dir file_pattern) = []"
  shows "process_directory env input_dir output_dir model_path file_pattern save_intermediates
           store_in_db max_workers h0 =
         (Inr (JDict [(''error'', JStr ''No PDF files found''), (''file_count'', JInt 0)]),
          h0 @ [Makedirs output_dir, Glob (join input_dir file_pattern) []]) \<and>
         ''No PDF files found'' \<noteq> []"
  using assms by (simp add: process_directory_def Let_def)

theorem no_matching_files_witness:
  "glob_glob example_env ([] @ [Makedirs ''out'']) (join ''empty'' ''*.pdf'') = [] \<and>
   process_directory example_env ''empty'' ''out'' None ''*.pdf'' True True 4 [] =
     (Inr (JDict [(''error'', JStr ''No PDF files found''), (''file_count'', JInt 0)]),
      [Makedirs ''out'', Glob ''empty/*.pdf'' []])"
proof -
  have g: "glob_glob example_env ([] @ [Makedirs ''out'']) (join ''empty'' ''*.pdf'') = []"
    by (simp add: example_env_def join_def)
  have j: "join ''empty'' ''*.pdf'' = ''empty/*.pdf''"
    by (simp add: join_def)
  from no_matching_files[OF g, of None True True 4] g j show ?thesis
    by simp
qed

section \<open>The pattern forwarded to the batch extractor\<close>



section \<open>Exit status\<close>

text \<open>
  Claim C7. The claim is that the entry point exits with status 0 whenever the dispatched
  orchestrator returns. For an existing directory without matching files the batch
  orchestrator returns its two-field summary, \<open>main\<close> then reads the key
  \<open>successful\<close>, which the summary does not have, and the \<open>KeyError\<close> leaves
  \<open>main\<close>: the exit status is 1.
\<close>

theorem main_fails_on_directory_without_documents:
  "path_isdir example_env [Isfile ''empty'' False] ''empty'' \<and>
   fst (process_directory example_env ''empty'' ''out'' None ''*.pdf'' False True 4
          [Isfile ''empty'' False, Isdir ''empty'' True]) =
     Inr (JDict [(''error'', JStr ''No PDF files found''), (''file_count'', JInt 0)]) \<and>
   fst (main example_env empty_dir_args []) = Inl (KeyError ''successful'') \<and>
   exit_status (fst (main example_env empty_dir_args [])) = 1"
  by (simp add: main_def empty_dir_args_def example_env_def process_directory_def join_def
        batch_report_def exit_status_def Let_def)

end
